theory Spec2Isabelle
  imports Main "HOL-Library.Word"
begin

section \<open>X25519 keys over an OpenSSL backend\<close>

text \<open>
  A shallow embedding of \<^verbatim>\<open>cryptography/hazmat/backends/openssl/x25519.py\<close>:
  the classes \<^verbatim>\<open>_X25519PublicKey\<close> and \<^verbatim>\<open>_X25519PrivateKey\<close> with their methods
  \<^verbatim>\<open>public_bytes\<close>, \<^verbatim>\<open>_raw_public_bytes\<close>, \<^verbatim>\<open>public_key\<close>, \<^verbatim>\<open>exchange\<close>,
  \<^verbatim>\<open>private_bytes\<close> and \<^verbatim>\<open>_raw_private_bytes\<close>.

  The module computes nothing itself: every method validates its arguments and calls
  into the backend object (\<^verbatim>\<open>self._backend\<close>, its OpenSSL binding \<^verbatim>\<open>_lib\<close> and its
  foreign-function interface \<^verbatim>\<open>_ffi\<close>). The backend is therefore a parameter of the
  model, a record of the operations the module calls. An exception is the \<open>Inl\<close>
  branch of a sum. Every method returns, next to its result, the list of backend
  calls it made, in the order it made them, so that a statement such as
  "fails before any backend call" can be written down.
\<close>

subsection \<open>Bytes and the foreign-function interface\<close>

type_synonym byte = "8 word"
type_synonym bytes = "byte list"

text \<open>\<^verbatim>\<open>_X25519_KEY_SIZE = 32\<close>\<close>

definition X25519_KEY_SIZE :: nat where
  "X25519_KEY_SIZE = 32"

text \<open>
  \<^verbatim>\<open>ffi.new("unsigned char []", n)\<close> allocates \<open>n\<close> zeroed bytes. A C function that is
  handed the buffer stores bytes from its start; the allocation keeps its size
  whatever the function stores (\<open>ffi_store\<close>). \<^verbatim>\<open>ffi.buffer(buf, n)[:]\<close> copies the
  first \<open>n\<close> bytes out.
\<close>

definition ffi_new :: "nat \<Rightarrow> bytes" where
  "ffi_new n = replicate n 0"

definition ffi_store :: "bytes \<Rightarrow> bytes \<Rightarrow> bytes" where
  "ffi_store buf written = take (length buf) (written @ drop (length written) buf)"

definition ffi_buffer :: "bytes \<Rightarrow> nat \<Rightarrow> bytes" where
  "ffi_buffer buf n = take n buf"

text \<open>\<^verbatim>\<open>ffi.gc(ptr, destructor)\<close> returns the same pointer with a finaliser attached.\<close>

definition ffi_gc :: "'h \<Rightarrow> 'h" where
  "ffi_gc ptr = ptr"

subsection \<open>Serialization parameters\<close>

text \<open>
  Modelled from the spec: the enumerations of
  \<^verbatim>\<open>cryptography.hazmat.primitives.serialization\<close> are not part of the module. The
  specification lists them as: encoding \<open>{Raw, DER/PEM-equivalent}\<close>; public format
  \<open>{Raw, SubjectPublicKeyInfo-equivalent}\<close>; private format
  \<open>{Raw, PKCS8-equivalent, legacy-equivalent}\<close>; encryption algorithm
  \<open>{NoEncryption, password-based encryption}\<close>. The module only ever tests a value
  for being \<open>Raw\<close>, and an encryption algorithm for being a \<open>NoEncryption\<close>.
\<close>

datatype Encoding = Encoding_Raw | Encoding_PEM | Encoding_DER

datatype PublicFormat = PublicFormat_Raw | SubjectPublicKeyInfo

datatype PrivateFormat = PrivateFormat_Raw | PKCS8 | TraditionalOpenSSL

datatype KeySerializationEncryption = NoEncryption | BestAvailableEncryption bytes

subsection \<open>Errors\<close>

text \<open>
  \<open>ValueError\<close> and \<open>TypeError\<close> carry the message the module raises them with.

  Modelled from the spec: \<^verbatim>\<open>Backend.openssl_assert\<close> is not part of the module; the
  specification describes it as a fatal internal assertion, distinct from the
  user-facing errors. \<open>InternalError\<close> is that failure.
\<close>

datatype error = ValueError string | TypeError string | InternalError

subsection \<open>Key objects\<close>

text \<open>
  Both classes hold \<^verbatim>\<open>_backend\<close> and \<^verbatim>\<open>_evp_pkey\<close>. The backend is the one parameter
  \<open>B\<close> of every method below; \<open>'h\<close> is the type of \<^verbatim>\<open>EVP_PKEY *\<close> handles.
\<close>

record 'h X25519PublicKey =
  public_evp_pkey :: 'h

record 'h X25519PrivateKey =
  private_evp_pkey :: 'h

text \<open>
  A Python object can carry more attributes than its class assigns. Where a statement is
  about what a method does not read, the method is defined on every object that has the
  field (a record scheme), and \<open>remembered_public\<close> is an example of an attribute
  attached to a private key object.
\<close>

record 'h X25519PrivateKey_with_attribute = "'h X25519PrivateKey" +
  remembered_public :: bytes

text \<open>
  Python checks the argument of \<^verbatim>\<open>exchange\<close> at run time, so the model needs values
  that are not public keys.
\<close>

datatype 'h py_object =
    Obj_X25519PublicKey "'h X25519PublicKey"
  | Obj_X25519PrivateKey "'h X25519PrivateKey"
  | Obj_bytes bytes
  | Obj_None

fun isinstance_X25519PublicKey :: "'h py_object \<Rightarrow> bool" where
  "isinstance_X25519PublicKey (Obj_X25519PublicKey k) = True"
| "isinstance_X25519PublicKey other = False"

subsection \<open>The backend\<close>

text \<open>
  The operations the module calls, with \<open>'b\<close> the type of memory BIOs. None of the
  calls the module makes modifies an \<^verbatim>\<open>EVP_PKEY\<close>, so a handle stands for the key it
  points to, and an operation is a function of its arguments; the one object that is
  written to, the BIO, is passed on explicitly. The record is the backend at one moment.
  Where a statement follows key objects from one method call to the next (every
  \<^verbatim>\<open>d2i_PUBKEY_bio\<close> returns a new \<^verbatim>\<open>EVP_PKEY\<close>), the backend is built over a store of
  key objects, in the section on the provider's store.
  \<^item> \<open>EVP_PKEY_get_raw_public_key pkey len\<close> and \<open>EVP_PKEY_get_raw_private_key pkey len\<close>:
    the C functions take the key, a buffer and a pointer to its length; they return a
    status, store bytes into the buffer and update the length. The model returns the
    status, the bytes stored and the new length.
  \<^item> \<open>create_mem_bio_gc\<close> is \<^verbatim>\<open>Backend._create_mem_bio_gc()\<close>.
  \<^item> \<open>i2d_PUBKEY_bio bio pkey\<close> returns a status and the BIO as written.
  \<^item> \<open>d2i_PUBKEY_bio bio\<close> returns a new key handle, \<open>None\<close> for \<^verbatim>\<open>NULL\<close>.
  \<^item> \<open>evp_pkey_derive evp_pkey peer_public_key\<close> is
    \<^verbatim>\<open>_evp_pkey_derive(backend, evp_pkey, peer_public_key)\<close> of
    \<^verbatim>\<open>backends/openssl/utils.py\<close>; it is handed the peer object, as in the module.
  \<^item> \<open>public_key_bytes\<close> and \<open>private_key_bytes\<close> are \<^verbatim>\<open>Backend._public_key_bytes\<close> and
    \<^verbatim>\<open>Backend._private_key_bytes\<close>; the last argument is \<^verbatim>\<open>cdata\<close>.
  \<^item> \<open>x25519_load_private_bytes\<close> is \<^verbatim>\<open>Backend.x25519_load_private_bytes\<close>, which
    builds a private key handle from raw bytes.
\<close>

record ('h, 'b) Backend =
  EVP_PKEY_get_raw_public_key :: "'h \<Rightarrow> nat \<Rightarrow> int \<times> bytes \<times> nat"
  EVP_PKEY_get_raw_private_key :: "'h \<Rightarrow> nat \<Rightarrow> int \<times> bytes \<times> nat"
  create_mem_bio_gc :: "error + 'b"
  i2d_PUBKEY_bio :: "'b \<Rightarrow> 'h \<Rightarrow> int \<times> 'b"
  d2i_PUBKEY_bio :: "'b \<Rightarrow> 'h option"
  evp_pkey_derive :: "'h \<Rightarrow> 'h py_object \<Rightarrow> error + bytes"
  public_key_bytes ::
    "Encoding \<Rightarrow> PublicFormat \<Rightarrow> 'h X25519PublicKey \<Rightarrow> 'h \<Rightarrow> unit option \<Rightarrow> error + bytes"
  private_key_bytes ::
    "Encoding \<Rightarrow> PrivateFormat \<Rightarrow> KeySerializationEncryption \<Rightarrow> 'h X25519PrivateKey \<Rightarrow> 'h
      \<Rightarrow> unit option \<Rightarrow> error + bytes"
  x25519_load_private_bytes :: "bytes \<Rightarrow> error + 'h"

text \<open>The calls a method can make, with their arguments.\<close>

datatype ('h, 'b) call =
    Call_EVP_PKEY_get_raw_public_key 'h nat
  | Call_EVP_PKEY_get_raw_private_key 'h nat
  | Call_create_mem_bio_gc
  | Call_i2d_PUBKEY_bio 'b 'h
  | Call_d2i_PUBKEY_bio 'b
  | Call_evp_pkey_derive 'h "'h py_object"
  | Call_public_key_bytes Encoding PublicFormat "'h X25519PublicKey" 'h "unit option"
  | Call_private_key_bytes Encoding PrivateFormat KeySerializationEncryption
      "'h X25519PrivateKey" 'h "unit option"
  | Call_x25519_load_private_bytes bytes

subsection \<open>Results with a call log\<close>

type_synonym ('h, 'b, 'a) run = "(error + 'a) \<times> ('h, 'b) call list"

definition returns :: "'a \<Rightarrow> ('h, 'b, 'a) run" where
  "returns x = (Inr x, [])"

definition raises :: "error \<Rightarrow> ('h, 'b, 'a) run" where
  "raises e = (Inl e, [])"

text \<open>A call that returns a value (a C function) and a call that may raise.\<close>

definition lib_call :: "('h, 'b) call \<Rightarrow> 'a \<Rightarrow> ('h, 'b, 'a) run" where
  "lib_call c r = (Inr r, [c])"

definition backend_call :: "('h, 'b) call \<Rightarrow> error + 'a \<Rightarrow> ('h, 'b, 'a) run" where
  "backend_call c r = (r, [c])"

text \<open>Sequencing: an exception ends the method, the calls made so far stay made.\<close>

definition and_then ::
  "('h, 'b, 'a) run \<Rightarrow> ('a \<Rightarrow> ('h, 'b, 'c) run) \<Rightarrow> ('h, 'b, 'c) run" where
  "and_then m f =
     (case m of
        (Inl e, t) \<Rightarrow> (Inl e, t)
      | (Inr x, t) \<Rightarrow> (case f x of (r, t') \<Rightarrow> (r, t @ t')))"

text \<open>
  Modelled from the spec: \<^verbatim>\<open>Backend.openssl_assert(ok)\<close> is not part of the module;
  the specification has it abort with a fatal internal error when \<open>ok\<close> is false.
\<close>

definition openssl_assert :: "bool \<Rightarrow> ('h, 'b, unit) run" where
  "openssl_assert ok = (if ok then returns () else raises InternalError)"

subsection \<open>\<^verbatim>\<open>_X25519PublicKey\<close>\<close>

definition raw_public_bytes ::
  "('h, 'b) Backend \<Rightarrow> 'h X25519PublicKey \<Rightarrow> ('h, 'b, bytes) run" where
  "raw_public_bytes B self =
     (let buf = ffi_new X25519_KEY_SIZE;
          buflen = X25519_KEY_SIZE
      in and_then
           (lib_call (Call_EVP_PKEY_get_raw_public_key (public_evp_pkey self) buflen)
              (EVP_PKEY_get_raw_public_key B (public_evp_pkey self) buflen))
           (\<lambda>(res, written, buflen').
              and_then (openssl_assert (res = 1)) (\<lambda>_.
              and_then (openssl_assert (buflen' = X25519_KEY_SIZE)) (\<lambda>_.
              returns (ffi_buffer (ffi_store buf written) X25519_KEY_SIZE)))))"

definition public_bytes ::
  "('h, 'b) Backend \<Rightarrow> 'h X25519PublicKey \<Rightarrow> Encoding \<Rightarrow> PublicFormat \<Rightarrow> ('h, 'b, bytes) run"
  where
  "public_bytes B self encoding format =
     (if encoding = Encoding_Raw \<or> format = PublicFormat_Raw then
        if encoding \<noteq> Encoding_Raw \<or> format \<noteq> PublicFormat_Raw then
          raises (ValueError ''When using Raw both encoding and format must be Raw'')
        else raw_public_bytes B self
      else
        backend_call
          (Call_public_key_bytes encoding format self (public_evp_pkey self) None)
          (public_key_bytes B encoding format self (public_evp_pkey self) None))"

subsection \<open>\<^verbatim>\<open>_X25519PrivateKey\<close>\<close>

definition public_key ::
  "('h, 'b) Backend \<Rightarrow> ('h, 'z) X25519PrivateKey_scheme \<Rightarrow> ('h, 'b, 'h X25519PublicKey) run"
  where
  "public_key B self =
     and_then (backend_call Call_create_mem_bio_gc (create_mem_bio_gc B)) (\<lambda>bio.
     and_then
       (lib_call (Call_i2d_PUBKEY_bio bio (private_evp_pkey self))
          (i2d_PUBKEY_bio B bio (private_evp_pkey self)))
       (\<lambda>(res, bio').
     and_then (openssl_assert (res = 1)) (\<lambda>_.
     and_then (lib_call (Call_d2i_PUBKEY_bio bio') (d2i_PUBKEY_bio B bio')) (\<lambda>evp_pkey.
     and_then (openssl_assert (evp_pkey \<noteq> None)) (\<lambda>_.
     returns \<lparr>public_evp_pkey = ffi_gc (the evp_pkey)\<rparr>)))))"

definition exchange ::
  "('h, 'b) Backend \<Rightarrow> 'h X25519PrivateKey \<Rightarrow> 'h py_object \<Rightarrow> ('h, 'b, bytes) run" where
  "exchange B self peer_public_key =
     (if \<not> isinstance_X25519PublicKey peer_public_key then
        raises (TypeError ''peer_public_key must be X25519PublicKey.'')
      else
        backend_call (Call_evp_pkey_derive (private_evp_pkey self) peer_public_key)
          (evp_pkey_derive B (private_evp_pkey self) peer_public_key))"

definition raw_private_bytes ::
  "('h, 'b) Backend \<Rightarrow> 'h X25519PrivateKey \<Rightarrow> ('h, 'b, bytes) run" where
  "raw_private_bytes B self =
     (let buf = ffi_new X25519_KEY_SIZE;
          buflen = X25519_KEY_SIZE
      in and_then
           (lib_call (Call_EVP_PKEY_get_raw_private_key (private_evp_pkey self) buflen)
              (EVP_PKEY_get_raw_private_key B (private_evp_pkey self) buflen))
           (\<lambda>(res, written, buflen').
              and_then (openssl_assert (res = 1)) (\<lambda>_.
              and_then (openssl_assert (buflen' = X25519_KEY_SIZE)) (\<lambda>_.
              returns (ffi_buffer (ffi_store buf written) X25519_KEY_SIZE)))))"

definition private_bytes ::
  "('h, 'b) Backend \<Rightarrow> 'h X25519PrivateKey \<Rightarrow> Encoding \<Rightarrow> PrivateFormat
    \<Rightarrow> KeySerializationEncryption \<Rightarrow> ('h, 'b, bytes) run" where
  "private_bytes B self encoding format encryption_algorithm =
     (if encoding = Encoding_Raw \<or> format = PrivateFormat_Raw then
        if format \<noteq> PrivateFormat_Raw \<or> encoding \<noteq> Encoding_Raw
           \<or> encryption_algorithm \<noteq> NoEncryption then
          raises (ValueError
            ''When using Raw both encoding and format must be Raw and encryption_algorithm must be NoEncryption()'')
        else raw_private_bytes B self
      else
        backend_call
          (Call_private_key_bytes encoding format encryption_algorithm self
             (private_evp_pkey self) None)
          (private_key_bytes B encoding format encryption_algorithm self
             (private_evp_pkey self) None))"

subsection \<open>Construction from raw bytes\<close>

text \<open>
  Modelled from the spec: \<^verbatim>\<open>X25519PrivateKey.from_private_bytes\<close> is not part of the
  module. The specification says a PrivateKey is "created by generation (external) or by
  decoding from raw/encoded bytes (provider-performed)": the provider builds the handle
  (\<open>x25519_load_private_bytes\<close>) and the handle is wrapped as a PrivateKey.
\<close>

definition from_private_bytes ::
  "('h, 'b) Backend \<Rightarrow> bytes \<Rightarrow> ('h, 'b, 'h X25519PrivateKey) run" where
  "from_private_bytes B data =
     and_then
       (backend_call (Call_x25519_load_private_bytes data) (x25519_load_private_bytes B data))
       (\<lambda>evp_pkey. returns \<lparr>private_evp_pkey = evp_pkey\<rparr>)"

subsection \<open>What the specification expects of the provider\<close>

text \<open>
  Modelled from the spec: the provider interface lists
  \<open>derive_public_from_private(handle) -> handle\<close>, described as the canonical round trip:
  "export the private key's public component into a provider-native key object". In terms
  of the backend's operations: a fresh memory BIO, the public component written to it,
  a key object read back from it.
\<close>

definition derive_public_from_private :: "('h, 'b) Backend \<Rightarrow> 'h \<Rightarrow> 'h option" where
  "derive_public_from_private B h =
     (case create_mem_bio_gc B of
        Inl e \<Rightarrow> None
      | Inr bio \<Rightarrow>
          (case i2d_PUBKEY_bio B bio h of
             (res, bio') \<Rightarrow> if res = 1 then d2i_PUBKEY_bio B bio' else None))"

text \<open>
  Modelled from the spec: a PrivateKey is an "opaque handle to a 32-byte Curve25519
  scalar"; the provider can export the scalar of such a handle.
\<close>

definition holds_private_key :: "('h, 'b) Backend \<Rightarrow> 'h \<Rightarrow> bool" where
  "holds_private_key B h \<longleftrightarrow> fst (EVP_PKEY_get_raw_private_key B h X25519_KEY_SIZE) = 1"

text \<open>
  Modelled from the spec: \<^verbatim>\<open>_evp_pkey_derive\<close> is not part of the module. The
  specification: "the provider performs Curve25519 Diffie-Hellman scalar multiplication
  (RFC 7748 section 5) and returns the resulting 32-byte shared secret".
\<close>

definition derive_returns_32_bytes :: "('h, 'b) Backend \<Rightarrow> bool" where
  "derive_returns_32_bytes B \<longleftrightarrow>
     (\<forall>h peer out. evp_pkey_derive B h peer = Inr out \<longrightarrow> length out = 32)"

text \<open>
  Modelled from the spec: the provider is "a black box satisfying the X25519
  specification, RFC 7748", whose Diffie-Hellman function commutes: for two private
  handles, deriving with one and the public key of the other gives the same result
  either way round.
\<close>

definition derive_commutes :: "('h, 'b) Backend \<Rightarrow> bool" where
  "derive_commutes B \<longleftrightarrow>
     (\<forall>a b pa pb.
        holds_private_key B a \<longrightarrow> holds_private_key B b \<longrightarrow>
        derive_public_from_private B a = Some pa \<longrightarrow>
        derive_public_from_private B b = Some pb \<longrightarrow>
        evp_pkey_derive B a (Obj_X25519PublicKey \<lparr>public_evp_pkey = pb\<rparr>)
          = evp_pkey_derive B b (Obj_X25519PublicKey \<lparr>public_evp_pkey = pa\<rparr>))"

text \<open>
  Modelled from the spec: the provider interface lists
  \<open>export_raw_private(handle) -> 32 bytes\<close>; a handle built from a 32-byte scalar
  exports that scalar.
\<close>

definition load_then_export_private :: "('h, 'b) Backend \<Rightarrow> bool" where
  "load_then_export_private B \<longleftrightarrow>
     (\<forall>s h. length s = 32 \<longrightarrow> x25519_load_private_bytes B s = Inr h \<longrightarrow>
        EVP_PKEY_get_raw_private_key B h X25519_KEY_SIZE = (1, s, 32))"

subsection \<open>Two small backends\<close>

text \<open>
  A backend over byte strings, to run the methods on: a key handle is a private scalar
  or a public value, a BIO is the bytes written to it, the public value of a scalar
  multiplies each byte by 9 and a shared secret is the bytewise product. It stands in
  for OpenSSL where a theorem needs a backend to be instantiated with; its arithmetic is
  not Curve25519.
\<close>

datatype toy_pkey = Toy_private bytes | Toy_public bytes

definition toy_public_of :: "bytes \<Rightarrow> bytes" where
  "toy_public_of s = map (\<lambda>x. 9 * x) s"

definition toy_shared :: "bytes \<Rightarrow> bytes \<Rightarrow> bytes" where
  "toy_shared s p = map (\<lambda>(x, y). x * y) (zip s p)"

fun toy_public_part :: "toy_pkey \<Rightarrow> bytes" where
  "toy_public_part (Toy_private s) = toy_public_of s"
| "toy_public_part (Toy_public p) = p"

fun toy_get_raw_private_key :: "toy_pkey \<Rightarrow> nat \<Rightarrow> int \<times> bytes \<times> nat" where
  "toy_get_raw_private_key (Toy_private s) len = (1, s, length s)"
| "toy_get_raw_private_key (Toy_public p) len = (0, [], len)"

fun toy_derive :: "toy_pkey \<Rightarrow> toy_pkey py_object \<Rightarrow> error + bytes" where
  "toy_derive (Toy_private s) (Obj_X25519PublicKey peer) =
     (case public_evp_pkey peer of
        Toy_public p \<Rightarrow>
          if length s = 32 \<and> length p = 32 then Inr (toy_shared s p)
          else Inl (ValueError ''Error computing shared key.'')
      | Toy_private s' \<Rightarrow> Inl (ValueError ''Error computing shared key.''))"
| "toy_derive h peer = Inl (ValueError ''Error computing shared key.'')"

definition toy_backend :: "(toy_pkey, bytes) Backend" where
  "toy_backend =
     \<lparr>EVP_PKEY_get_raw_public_key =
        (\<lambda>h len. (1, toy_public_part h, length (toy_public_part h))),
      EVP_PKEY_get_raw_private_key = toy_get_raw_private_key,
      create_mem_bio_gc = Inr [],
      i2d_PUBKEY_bio = (\<lambda>bio h. (1, bio @ toy_public_part h)),
      d2i_PUBKEY_bio = (\<lambda>bio. if length bio = 32 then Some (Toy_public bio) else None),
      evp_pkey_derive = toy_derive,
      public_key_bytes = (\<lambda>encoding format key h cdata. Inr (0x30 # toy_public_part h)),
      private_key_bytes =
        (\<lambda>encoding format encryption_algorithm key h cdata.
           case encryption_algorithm of
             NoEncryption \<Rightarrow> Inr (0x30 # toy_public_part h)
           | BestAvailableEncryption password \<Rightarrow> Inr (0x31 # toy_public_part h)),
      x25519_load_private_bytes =
        (\<lambda>data. if length data \<noteq> 32
           then Inl (ValueError ''An X25519 private key is 32 bytes long'')
           else Inr (Toy_private data))\<rparr>"

text \<open>
  A backend that breaks the contract of the raw exports: the public export reports
  31 bytes, the private export reports a failed status.
\<close>

definition short_backend :: "(toy_pkey, bytes) Backend" where
  "short_backend =
     toy_backend
       \<lparr>EVP_PKEY_get_raw_public_key := (\<lambda>h len. (1, replicate 31 7, 31)),
        EVP_PKEY_get_raw_private_key := (\<lambda>h len. (0, [], len))\<rparr>"

text \<open>Two scalars (the private keys of RFC 7748, section 6.1) to run the methods on.\<close>

definition alice_scalar :: bytes where
  "alice_scalar =
     [119, 7, 109, 10, 115, 24, 165, 125,
      60, 22, 193, 114, 81, 178, 102, 69,
      223, 76, 47, 135, 235, 192, 153, 42,
      177, 119, 251, 165, 29, 185, 44, 42]"

definition bob_scalar :: bytes where
  "bob_scalar =
     [93, 171, 8, 126, 98, 74, 138, 75,
      121, 225, 127, 139, 131, 128, 14, 230,
      111, 59, 177, 41, 38, 24, 182, 253,
      28, 47, 139, 39, 255, 136, 224, 235]"

definition alice :: "toy_pkey X25519PrivateKey" where
  "alice = \<lparr>private_evp_pkey = Toy_private alice_scalar\<rparr>"

definition bob :: "toy_pkey X25519PrivateKey" where
  "bob = \<lparr>private_evp_pkey = Toy_private bob_scalar\<rparr>"

text \<open>The first private key, carrying the public value of the second as an attribute.\<close>

definition alice_with_attribute :: "toy_pkey X25519PrivateKey_with_attribute" where
  "alice_with_attribute =
     \<lparr>private_evp_pkey = Toy_private alice_scalar,
      remembered_public = toy_public_of bob_scalar\<rparr>"

definition alice_public :: "toy_pkey X25519PublicKey" where
  "alice_public = \<lparr>public_evp_pkey = Toy_public (toy_public_of alice_scalar)\<rparr>"

definition bob_public :: "toy_pkey X25519PublicKey" where
  "bob_public = \<lparr>public_evp_pkey = Toy_public (toy_public_of bob_scalar)\<rparr>"

subsection \<open>Key objects in the provider's store\<close>

text \<open>
  Modelled from the spec: the provider's key objects are not part of the module. The
  specification has a key be an "opaque handle" to key material, "owned exclusively by
  this value", "created either by derivation from a PrivateKey, or by decoding from
  raw/encoded bytes (provider-performed)", with "no sharing"; derivation exports the
  public component "into a provider-native key object" that is wrapped "as a new
  PublicKey value"; and export and exchange are read-only: "none mutate the underlying
  handle".

  So the provider keeps key objects in a store and a handle is the address of an
  object, here its index in the list of objects. \<open>d2i_PUBKEY_bio\<close> and
  \<open>x25519_load_private_bytes\<close> create a new object at a fresh address on every call;
  no call changes or removes an object that is there; an operation that is handed an
  address answers from the object at that address, and fails when there is none. What
  an operation answers for a given object is a backend \<open>M\<close> on the objects themselves.
\<close>

definition object_at :: "'k list \<Rightarrow> nat \<Rightarrow> 'k option" where
  "object_at objs h = (if h < length objs then Some (objs ! h) else None)"

fun resolve_object :: "'k list \<Rightarrow> nat py_object \<Rightarrow> 'k py_object option" where
  "resolve_object objs (Obj_X25519PublicKey key) =
     (case object_at objs (public_evp_pkey key) of
        None \<Rightarrow> None
      | Some k \<Rightarrow> Some (Obj_X25519PublicKey \<lparr>public_evp_pkey = k\<rparr>))"
| "resolve_object objs (Obj_X25519PrivateKey key) =
     (case object_at objs (private_evp_pkey key) of
        None \<Rightarrow> None
      | Some k \<Rightarrow> Some (Obj_X25519PrivateKey \<lparr>private_evp_pkey = k\<rparr>))"
| "resolve_object objs (Obj_bytes data) = Some (Obj_bytes data)"
| "resolve_object objs Obj_None = Some Obj_None"

text \<open>
  Modelled from the spec: the backend as it answers while the store holds \<open>objs\<close>. The
  address \<open>d2i_PUBKEY_bio\<close> and \<open>x25519_load_private_bytes\<close> return is the next free
  one.
\<close>

definition store_backend :: "('k, 'b) Backend \<Rightarrow> 'k list \<Rightarrow> (nat, 'b) Backend" where
  "store_backend M objs =
     \<lparr>EVP_PKEY_get_raw_public_key =
        (\<lambda>h len. case object_at objs h of
           None \<Rightarrow> (0, [], len)
         | Some k \<Rightarrow> EVP_PKEY_get_raw_public_key M k len),
      EVP_PKEY_get_raw_private_key =
        (\<lambda>h len. case object_at objs h of
           None \<Rightarrow> (0, [], len)
         | Some k \<Rightarrow> EVP_PKEY_get_raw_private_key M k len),
      create_mem_bio_gc = create_mem_bio_gc M,
      i2d_PUBKEY_bio =
        (\<lambda>bio h. case object_at objs h of
           None \<Rightarrow> (0, bio)
         | Some k \<Rightarrow> i2d_PUBKEY_bio M bio k),
      d2i_PUBKEY_bio =
        (\<lambda>bio. case d2i_PUBKEY_bio M bio of
           None \<Rightarrow> None
         | Some k \<Rightarrow> Some (length objs)),
      evp_pkey_derive =
        (\<lambda>h peer. case object_at objs h of
           None \<Rightarrow> Inl InternalError
         | Some k \<Rightarrow>
             (case resolve_object objs peer of
                None \<Rightarrow> Inl InternalError
              | Some peer' \<Rightarrow> evp_pkey_derive M k peer')),
      public_key_bytes =
        (\<lambda>encoding format key h cdata.
           case (object_at objs (public_evp_pkey key), object_at objs h) of
             (Some k', Some k) \<Rightarrow>
               public_key_bytes M encoding format \<lparr>public_evp_pkey = k'\<rparr> k cdata
           | _ \<Rightarrow> Inl InternalError),
      private_key_bytes =
        (\<lambda>encoding format encryption_algorithm key h cdata.
           case (object_at objs (private_evp_pkey key), object_at objs h) of
             (Some k', Some k) \<Rightarrow>
               private_key_bytes M encoding format encryption_algorithm
                 \<lparr>private_evp_pkey = k'\<rparr> k cdata
           | _ \<Rightarrow> Inl InternalError),
      x25519_load_private_bytes =
        (\<lambda>data. case x25519_load_private_bytes M data of
           Inl e \<Rightarrow> Inl e
         | Inr k \<Rightarrow> Inr (length objs))\<rparr>"

text \<open>
  Modelled from the spec: the store after a call. The two calls that create an object
  append it; every other call leaves the store as it is.
\<close>

fun store_after_call :: "('k, 'b) Backend \<Rightarrow> 'k list \<Rightarrow> (nat, 'b) call \<Rightarrow> 'k list" where
  "store_after_call M objs (Call_d2i_PUBKEY_bio bio) =
     (case d2i_PUBKEY_bio M bio of None \<Rightarrow> objs | Some k \<Rightarrow> objs @ [k])"
| "store_after_call M objs (Call_x25519_load_private_bytes data) =
     (case x25519_load_private_bytes M data of Inl e \<Rightarrow> objs | Inr k \<Rightarrow> objs @ [k])"
| "store_after_call M objs c = objs"

text \<open>
  A method run while the store holds \<open>objs\<close>, with its result and the store it leaves
  behind. The calls of one run are answered from the store the run starts in; that is
  how the provider answers them when the run creates at most one object and does so in
  its last call, which is the case for every method of the module.
\<close>

definition in_store ::
  "('k, 'b) Backend \<Rightarrow> 'k list \<Rightarrow> (nat, 'b, 'a) run \<Rightarrow> (error + 'a) \<times> 'k list" where
  "in_store M objs m = (case m of (r, calls) \<Rightarrow> (r, foldl (store_after_call M) objs calls))"

definition public_key_in ::
  "('k, 'b) Backend \<Rightarrow> 'k list \<Rightarrow> (nat, 'z) X25519PrivateKey_scheme
    \<Rightarrow> (error + nat X25519PublicKey) \<times> 'k list" where
  "public_key_in M objs self = in_store M objs (public_key (store_backend M objs) self)"

definition public_bytes_in ::
  "('k, 'b) Backend \<Rightarrow> 'k list \<Rightarrow> nat X25519PublicKey \<Rightarrow> Encoding \<Rightarrow> PublicFormat
    \<Rightarrow> (error + bytes) \<times> 'k list" where
  "public_bytes_in M objs self encoding format =
     in_store M objs (public_bytes (store_backend M objs) self encoding format)"

text \<open>
  A store that holds the first scalar at address 0, the private key object that points
  to it, and the object a derivation of its public key creates.
\<close>

definition alice_objects :: "toy_pkey list" where
  "alice_objects = [Toy_private alice_scalar]"

definition alice_at_0 :: "nat X25519PrivateKey" where
  "alice_at_0 = \<lparr>private_evp_pkey = 0\<rparr>"

definition alice_derived :: toy_pkey where
  "alice_derived = Toy_public (toy_public_of alice_scalar)"

section \<open>Properties\<close>

subsection \<open>Unfolding the methods\<close>

lemmas run_defs = and_then_def lib_call_def backend_call_def openssl_assert_def returns_def raises_def

lemma length_ffi_export: "length (ffi_buffer (ffi_store (ffi_new n) written) n) = n"
  by (simp add: ffi_buffer_def ffi_store_def ffi_new_def)

lemma ffi_export_exact: "length written = n \<Longrightarrow> ffi_buffer (ffi_store (ffi_new n) written) n = written"
  by (simp add: ffi_buffer_def ffi_store_def ffi_new_def)

lemma raw_public_bytes_unfold:
  "raw_public_bytes B self =
     (case EVP_PKEY_get_raw_public_key B (public_evp_pkey self) X25519_KEY_SIZE of
        (res, written, buflen') \<Rightarrow>
          (if res = 1 \<and> buflen' = X25519_KEY_SIZE
           then Inr (ffi_buffer (ffi_store (ffi_new X25519_KEY_SIZE) written) X25519_KEY_SIZE)
           else Inl InternalError,
           [Call_EVP_PKEY_get_raw_public_key (public_evp_pkey self) X25519_KEY_SIZE]))"
  by (simp add: raw_public_bytes_def run_defs Let_def split: prod.splits)

lemma raw_private_bytes_unfold:
  "raw_private_bytes B self =
     (case EVP_PKEY_get_raw_private_key B (private_evp_pkey self) X25519_KEY_SIZE of
        (res, written, buflen') \<Rightarrow>
          (if res = 1 \<and> buflen' = X25519_KEY_SIZE
           then Inr (ffi_buffer (ffi_store (ffi_new X25519_KEY_SIZE) written) X25519_KEY_SIZE)
           else Inl InternalError,
           [Call_EVP_PKEY_get_raw_private_key (private_evp_pkey self) X25519_KEY_SIZE]))"
  by (simp add: raw_private_bytes_def run_defs Let_def split: prod.splits)

lemma public_key_unfold:
  "public_key B self =
     (case create_mem_bio_gc B of
        Inl e \<Rightarrow> (Inl e, [Call_create_mem_bio_gc])
      | Inr bio \<Rightarrow>
          (case i2d_PUBKEY_bio B bio (private_evp_pkey self) of
             (res, bio') \<Rightarrow>
               if res \<noteq> 1 then
                 (Inl InternalError,
                  [Call_create_mem_bio_gc, Call_i2d_PUBKEY_bio bio (private_evp_pkey self)])
               else
                 (case d2i_PUBKEY_bio B bio' of
                    None \<Rightarrow> Inl InternalError
                  | Some p \<Rightarrow> Inr \<lparr>public_evp_pkey = p\<rparr>,
                  [Call_create_mem_bio_gc, Call_i2d_PUBKEY_bio bio (private_evp_pkey self),
                   Call_d2i_PUBKEY_bio bio'])))"
  by (simp add: public_key_def run_defs ffi_gc_def split: sum.splits prod.splits option.splits)

lemmas toy_defs = toy_backend_def short_backend_def alice_def bob_def alice_public_def bob_public_def
  toy_public_of_def toy_shared_def alice_scalar_def bob_scalar_def
lemmas ffi_defs = ffi_buffer_def ffi_store_def ffi_new_def X25519_KEY_SIZE_def

subsection \<open>Raw and structured export of a public key\<close>

text \<open>
  Claim C1. For every public key and every pair of encoding and format of which exactly
  one is \<open>Raw\<close>, \<open>public_bytes\<close> raises the \<open>ValueError\<close> "When using Raw both encoding
  and format must be Raw", returns no bytes and has called nothing in the backend. The
  raw export (a call of \<open>EVP_PKEY_get_raw_public_key\<close>) happens for the pair
  \<open>(Raw, Raw)\<close> and for no other; for that pair \<open>public_bytes\<close> is \<open>_raw_public_bytes\<close>.
\<close>

theorem public_bytes_raw_exclusive:
  "((encoding = Encoding_Raw) \<noteq> (format = PublicFormat_Raw) \<longrightarrow>
      public_bytes B self encoding format =
        (Inl (ValueError ''When using Raw both encoding and format must be Raw''), []))
   \<and> ((\<exists>h n. Call_EVP_PKEY_get_raw_public_key h n \<in> set (snd (public_bytes B self encoding format)))
        \<longleftrightarrow> encoding = Encoding_Raw \<and> format = PublicFormat_Raw)
   \<and> (encoding = Encoding_Raw \<and> format = PublicFormat_Raw \<longrightarrow>
        public_bytes B self encoding format = raw_public_bytes B self)"
  by (auto simp: public_bytes_def raises_def backend_call_def raw_public_bytes_unfold
           split: prod.splits)

text \<open>
  The theorem at the toy backend: \<open>Raw\<close> with \<open>SubjectPublicKeyInfo\<close> and \<open>PEM\<close> with
  \<open>Raw\<close> are refused, \<open>Raw\<close> with \<open>Raw\<close> exports the 32 bytes of the public value.
\<close>

theorem public_bytes_raw_exclusive_witness:
  "public_bytes toy_backend alice_public Encoding_Raw SubjectPublicKeyInfo =
     (Inl (ValueError ''When using Raw both encoding and format must be Raw''), [])
   \<and> public_bytes toy_backend alice_public Encoding_PEM PublicFormat_Raw =
     (Inl (ValueError ''When using Raw both encoding and format must be Raw''), [])
   \<and> public_bytes toy_backend alice_public Encoding_Raw PublicFormat_Raw =
     raw_public_bytes toy_backend alice_public
   \<and> fst (raw_public_bytes toy_backend alice_public) = Inr (toy_public_of alice_scalar)"
  using public_bytes_raw_exclusive
          [where encoding = Encoding_Raw and format = SubjectPublicKeyInfo
             and B = toy_backend and self = alice_public]
        public_bytes_raw_exclusive
          [where encoding = Encoding_PEM and format = PublicFormat_Raw
             and B = toy_backend and self = alice_public]
        public_bytes_raw_exclusive
          [where encoding = Encoding_Raw and format = PublicFormat_Raw
             and B = toy_backend and self = alice_public]
  by (simp add: raw_public_bytes_unfold toy_defs ffi_defs)

subsection \<open>Raw export of a private key\<close>

text \<open>
  Claim C2. For every private key and every triple in which the encoding or the format
  is \<open>Raw\<close>: when encoding and format are both \<open>Raw\<close> and the encryption algorithm is
  \<open>NoEncryption\<close>, \<open>private_bytes\<close> is the raw export \<open>_raw_private_bytes\<close>; for every
  other such triple it raises the \<open>ValueError\<close> "When using Raw both encoding and format
  must be Raw and encryption_algorithm must be NoEncryption()" without a backend call.
  So the call can only succeed when all three hold, and it does succeed then whenever the
  raw export of the backend reports status 1 and 32 bytes. The raw export (a call of
  \<open>EVP_PKEY_get_raw_private_key\<close>) happens for that triple and for no other.
\<close>

theorem private_bytes_raw_exclusive:
  assumes "encoding = Encoding_Raw \<or> format = PrivateFormat_Raw"
  shows
    "(encoding = Encoding_Raw \<and> format = PrivateFormat_Raw \<and> encryption_algorithm = NoEncryption
        \<longrightarrow> private_bytes B self encoding format encryption_algorithm = raw_private_bytes B self)
     \<and> (\<not> (encoding = Encoding_Raw \<and> format = PrivateFormat_Raw
             \<and> encryption_algorithm = NoEncryption)
        \<longrightarrow> private_bytes B self encoding format encryption_algorithm =
            (Inl (ValueError
               ''When using Raw both encoding and format must be Raw and encryption_algorithm must be NoEncryption()''),
             []))
     \<and> ((\<exists>out. fst (private_bytes B self encoding format encryption_algorithm) = Inr out)
        \<longrightarrow> encoding = Encoding_Raw \<and> format = PrivateFormat_Raw
            \<and> encryption_algorithm = NoEncryption)
     \<and> (encoding = Encoding_Raw \<and> format = PrivateFormat_Raw \<and> encryption_algorithm = NoEncryption
        \<and> (\<exists>written. EVP_PKEY_get_raw_private_key B (private_evp_pkey self) X25519_KEY_SIZE
                         = (1, written, X25519_KEY_SIZE))
        \<longrightarrow> (\<exists>out. fst (private_bytes B self encoding format encryption_algorithm) = Inr out))
     \<and> ((\<exists>h n. Call_EVP_PKEY_get_raw_private_key h n
                 \<in> set (snd (private_bytes B self encoding format encryption_algorithm)))
        \<longleftrightarrow> encoding = Encoding_Raw \<and> format = PrivateFormat_Raw
            \<and> encryption_algorithm = NoEncryption)"
  using assms
  by (auto simp: private_bytes_def raises_def raw_private_bytes_unfold split: prod.splits)

text \<open>
  The theorem at the toy backend: the triple \<open>(Raw, Raw, NoEncryption)\<close> returns the
  scalar; a password, a \<open>PKCS8\<close> format or a \<open>DER\<close> encoding next to a \<open>Raw\<close> is refused.
\<close>

theorem private_bytes_raw_exclusive_witness:
  "private_bytes toy_backend alice Encoding_Raw PrivateFormat_Raw NoEncryption =
     raw_private_bytes toy_backend alice
   \<and> fst (private_bytes toy_backend alice Encoding_Raw PrivateFormat_Raw NoEncryption) =
     Inr alice_scalar
   \<and> private_bytes toy_backend alice Encoding_Raw PrivateFormat_Raw (BestAvailableEncryption []) =
     (Inl (ValueError
        ''When using Raw both encoding and format must be Raw and encryption_algorithm must be NoEncryption()''),
      [])
   \<and> private_bytes toy_backend alice Encoding_Raw PKCS8 NoEncryption =
     (Inl (ValueError
        ''When using Raw both encoding and format must be Raw and encryption_algorithm must be NoEncryption()''),
      [])
   \<and> private_bytes toy_backend alice Encoding_DER PrivateFormat_Raw NoEncryption =
     (Inl (ValueError
        ''When using Raw both encoding and format must be Raw and encryption_algorithm must be NoEncryption()''),
      [])"
  using private_bytes_raw_exclusive
          [where encoding = Encoding_Raw and format = PrivateFormat_Raw
             and encryption_algorithm = NoEncryption and B = toy_backend and self = alice]
        private_bytes_raw_exclusive
          [where encoding = Encoding_Raw and format = PrivateFormat_Raw
             and encryption_algorithm = "BestAvailableEncryption []"
             and B = toy_backend and self = alice]
        private_bytes_raw_exclusive
          [where encoding = Encoding_Raw and format = PKCS8
             and encryption_algorithm = NoEncryption and B = toy_backend and self = alice]
        private_bytes_raw_exclusive
          [where encoding = Encoding_DER and format = PrivateFormat_Raw
             and encryption_algorithm = NoEncryption and B = toy_backend and self = alice]
  by (simp add: raw_private_bytes_unfold toy_defs ffi_defs)

subsection \<open>The type guard of the exchange\<close>

text \<open>
  Claim C3, as stated, gives the message of the \<open>TypeError\<close> as
  "peer_public_key must be X25519PublicKey". The message the method raises ends in a
  full stop, so the error is not the one with the message as quoted.
\<close>

theorem exchange_message_counterexample:
  "\<not> isinstance_X25519PublicKey (Obj_None :: toy_pkey py_object)
   \<and> exchange toy_backend alice Obj_None =
       (Inl (TypeError ''peer_public_key must be X25519PublicKey.''), [])
   \<and> fst (exchange toy_backend alice Obj_None)
       \<noteq> Inl (TypeError ''peer_public_key must be X25519PublicKey'')"
  by (simp add: exchange_def raises_def)

text \<open>
  Claim C3, amended. For every private key and every peer that is not an
  \<open>X25519PublicKey\<close>, \<open>exchange\<close> raises the \<open>TypeError\<close>
  "peer_public_key must be X25519PublicKey." (with the full stop) before any backend
  call; for every peer that is one, \<open>exchange\<close> makes exactly the call of the derive
  operation, on its own handle and the peer, and returns what that call returns.
\<close>

theorem exchange_type_guard:
  "(\<not> isinstance_X25519PublicKey peer_public_key \<longrightarrow>
      exchange B self peer_public_key =
        (Inl (TypeError ''peer_public_key must be X25519PublicKey.''), []))
   \<and> (isinstance_X25519PublicKey peer_public_key \<longrightarrow>
        exchange B self peer_public_key =
          (evp_pkey_derive B (private_evp_pkey self) peer_public_key,
           [Call_evp_pkey_derive (private_evp_pkey self) peer_public_key]))"
  by (simp add: exchange_def raises_def backend_call_def)

text \<open>
  The amended claim at the toy backend: a byte string and a private key are refused,
  a public key reaches the derive operation.
\<close>

theorem exchange_type_guard_witness:
  "exchange toy_backend alice (Obj_bytes alice_scalar) =
     (Inl (TypeError ''peer_public_key must be X25519PublicKey.''), [])
   \<and> exchange toy_backend alice (Obj_X25519PrivateKey bob) =
     (Inl (TypeError ''peer_public_key must be X25519PublicKey.''), [])
   \<and> exchange toy_backend alice (Obj_X25519PublicKey bob_public) =
     (Inr (toy_shared alice_scalar (toy_public_of bob_scalar)),
      [Call_evp_pkey_derive (Toy_private alice_scalar) (Obj_X25519PublicKey bob_public)])"
  using exchange_type_guard
          [where peer_public_key = "Obj_bytes alice_scalar" and B = toy_backend and self = alice]
        exchange_type_guard
          [where peer_public_key = "Obj_X25519PrivateKey bob" and B = toy_backend
             and self = alice]
        exchange_type_guard
          [where peer_public_key = "Obj_X25519PublicKey bob_public" and B = toy_backend
             and self = alice]
  by (simp add: toy_backend_def alice_def bob_public_def alice_scalar_def bob_scalar_def toy_public_of_def)

subsection \<open>The toy backend meets what the specification expects of the provider\<close>

lemma toy_shared_commutes: "toy_shared a (toy_public_of b) = toy_shared b (toy_public_of a)"
proof (induction a arbitrary: b)
  case Nil
  then show ?case by (simp add: toy_shared_def toy_public_of_def)
next
  case (Cons x xs)
  show ?case
  proof (cases b)
    case Nil
    then show ?thesis by (simp add: toy_shared_def toy_public_of_def)
  next
    case (Cons y ys)
    have "toy_shared xs (toy_public_of ys) = toy_shared ys (toy_public_of xs)"
      by (rule Cons.IH)
    then show ?thesis
      using Cons by (simp add: toy_shared_def toy_public_of_def mult.left_commute mult.commute)
  qed
qed

lemma toy_derive_32: "toy_derive h peer = Inr out \<Longrightarrow> length out = 32"
  by (cases h; cases peer) (auto simp: toy_shared_def split: if_splits toy_pkey.splits)

lemma toy_backend_derive_returns_32_bytes: "derive_returns_32_bytes toy_backend"
  by (auto simp: derive_returns_32_bytes_def toy_backend_def dest: toy_derive_32)

lemma toy_holds_private_key:
  "holds_private_key toy_backend h \<longleftrightarrow> (\<exists>s. h = Toy_private s)"
  by (cases h) (simp_all add: holds_private_key_def toy_backend_def)

lemma toy_derive_public_from_private:
  "derive_public_from_private toy_backend h =
     (if length (toy_public_part h) = 32 then Some (Toy_public (toy_public_part h)) else None)"
  by (simp add: derive_public_from_private_def toy_backend_def)

lemma toy_backend_derive_commutes: "derive_commutes toy_backend"
  unfolding derive_commutes_def
proof (intro allI impI)
  fix a b pa pb
  assume a: "holds_private_key toy_backend a" and b: "holds_private_key toy_backend b"
    and pa: "derive_public_from_private toy_backend a = Some pa"
    and pb: "derive_public_from_private toy_backend b = Some pb"
  from a obtain sa where sa: "a = Toy_private sa" by (auto simp: toy_holds_private_key)
  from b obtain sb where sb: "b = Toy_private sb" by (auto simp: toy_holds_private_key)
  from pa sa have la: "length sa = 32" and pa': "pa = Toy_public (toy_public_of sa)"
    by (auto simp: toy_derive_public_from_private toy_public_of_def split: if_splits)
  from pb sb have lb: "length sb = 32" and pb': "pb = Toy_public (toy_public_of sb)"
    by (auto simp: toy_derive_public_from_private toy_public_of_def split: if_splits)
  show "evp_pkey_derive toy_backend a (Obj_X25519PublicKey \<lparr>public_evp_pkey = pb\<rparr>)
          = evp_pkey_derive toy_backend b (Obj_X25519PublicKey \<lparr>public_evp_pkey = pa\<rparr>)"
    using la lb by (simp add: sa sb pa' pb' toy_backend_def toy_shared_commutes)
      (simp add: toy_public_of_def)
qed

lemma toy_backend_load_then_export: "load_then_export_private toy_backend"
  by (auto simp: load_then_export_private_def toy_backend_def X25519_KEY_SIZE_def split: if_splits)

lemma length_alice_scalar: "length alice_scalar = 32"
  by (simp add: alice_scalar_def)

lemma length_bob_scalar: "length bob_scalar = 32"
  by (simp add: bob_scalar_def)

subsection \<open>Sizes\<close>

text \<open>
  Claim C4. A raw export of a public or of a private key that succeeds returns exactly
  32 bytes, for every backend. An exchange that succeeds returns exactly 32 bytes when
  the derive operation returns 32 bytes, as the specification says it does (the method
  itself does not look at the length). When \<open>EVP_PKEY_get_raw_public_key\<close> or
  \<open>EVP_PKEY_get_raw_private_key\<close> reports a status other than 1 or a length other than
  32, the raw export fails with the fatal \<open>InternalError\<close> and returns no bytes.
\<close>

theorem fixed_size_32:
  "(\<forall>out. fst (public_bytes B pub Encoding_Raw PublicFormat_Raw) = Inr out \<longrightarrow> length out = 32)
   \<and> (\<forall>out. fst (private_bytes B priv Encoding_Raw PrivateFormat_Raw NoEncryption) = Inr out
         \<longrightarrow> length out = 32)
   \<and> (derive_returns_32_bytes B \<longrightarrow>
        (\<forall>out. fst (exchange B priv peer_public_key) = Inr out \<longrightarrow> length out = 32))
   \<and> (fst (EVP_PKEY_get_raw_public_key B (public_evp_pkey pub) X25519_KEY_SIZE) \<noteq> 1
        \<or> snd (snd (EVP_PKEY_get_raw_public_key B (public_evp_pkey pub) X25519_KEY_SIZE)) \<noteq> 32
      \<longrightarrow> fst (public_bytes B pub Encoding_Raw PublicFormat_Raw) = Inl InternalError)
   \<and> (fst (EVP_PKEY_get_raw_private_key B (private_evp_pkey priv) X25519_KEY_SIZE) \<noteq> 1
        \<or> snd (snd (EVP_PKEY_get_raw_private_key B (private_evp_pkey priv) X25519_KEY_SIZE)) \<noteq> 32
      \<longrightarrow> fst (private_bytes B priv Encoding_Raw PrivateFormat_Raw NoEncryption)
            = Inl InternalError)"
proof (intro conjI)
  show "\<forall>out. fst (public_bytes B pub Encoding_Raw PublicFormat_Raw) = Inr out \<longrightarrow> length out = 32"
    by (auto simp: public_bytes_def raw_public_bytes_unfold length_ffi_export X25519_KEY_SIZE_def
             split: prod.splits if_splits)
  show "\<forall>out. fst (private_bytes B priv Encoding_Raw PrivateFormat_Raw NoEncryption) = Inr out
          \<longrightarrow> length out = 32"
    by (auto simp: private_bytes_def raw_private_bytes_unfold length_ffi_export X25519_KEY_SIZE_def
             split: prod.splits if_splits)
  show "derive_returns_32_bytes B \<longrightarrow>
          (\<forall>out. fst (exchange B priv peer_public_key) = Inr out \<longrightarrow> length out = 32)"
    by (auto simp: exchange_def raises_def backend_call_def derive_returns_32_bytes_def
             split: if_splits)
  show "fst (EVP_PKEY_get_raw_public_key B (public_evp_pkey pub) X25519_KEY_SIZE) \<noteq> 1
        \<or> snd (snd (EVP_PKEY_get_raw_public_key B (public_evp_pkey pub) X25519_KEY_SIZE)) \<noteq> 32
      \<longrightarrow> fst (public_bytes B pub Encoding_Raw PublicFormat_Raw) = Inl InternalError"
    by (auto simp: public_bytes_def raw_public_bytes_unfold X25519_KEY_SIZE_def split: prod.splits)
  show "fst (EVP_PKEY_get_raw_private_key B (private_evp_pkey priv) X25519_KEY_SIZE) \<noteq> 1
        \<or> snd (snd (EVP_PKEY_get_raw_private_key B (private_evp_pkey priv) X25519_KEY_SIZE)) \<noteq> 32
      \<longrightarrow> fst (private_bytes B priv Encoding_Raw PrivateFormat_Raw NoEncryption)
            = Inl InternalError"
    by (auto simp: private_bytes_def raw_private_bytes_unfold X25519_KEY_SIZE_def split: prod.splits)
qed

text \<open>
  The theorem at the toy backend, where the exports and the exchange return 32 bytes,
  and at the backend that reports 31 bytes for the public key and a failed status for
  the private key, where both exports end in the assertion.
\<close>

theorem fixed_size_32_witness:
  "derive_returns_32_bytes toy_backend
   \<and> fst (public_bytes toy_backend alice_public Encoding_Raw PublicFormat_Raw)
       = Inr (toy_public_of alice_scalar)
   \<and> length (toy_public_of alice_scalar) = 32
   \<and> fst (private_bytes toy_backend alice Encoding_Raw PrivateFormat_Raw NoEncryption)
       = Inr alice_scalar
   \<and> length alice_scalar = 32
   \<and> fst (exchange toy_backend alice (Obj_X25519PublicKey bob_public))
       = Inr (toy_shared alice_scalar (toy_public_of bob_scalar))
   \<and> length (toy_shared alice_scalar (toy_public_of bob_scalar)) = 32
   \<and> EVP_PKEY_get_raw_public_key short_backend (public_evp_pkey alice_public) X25519_KEY_SIZE
       = (1, replicate 31 7, 31)
   \<and> fst (public_bytes short_backend alice_public Encoding_Raw PublicFormat_Raw)
       = Inl InternalError
   \<and> fst (EVP_PKEY_get_raw_private_key short_backend (private_evp_pkey alice) X25519_KEY_SIZE) = 0
   \<and> fst (private_bytes short_backend alice Encoding_Raw PrivateFormat_Raw NoEncryption)
       = Inl InternalError"
proof -
  have toy: "fst (public_bytes toy_backend alice_public Encoding_Raw PublicFormat_Raw)
       = Inr (toy_public_of alice_scalar)"
      "fst (private_bytes toy_backend alice Encoding_Raw PrivateFormat_Raw NoEncryption)
       = Inr alice_scalar"
      "fst (exchange toy_backend alice (Obj_X25519PublicKey bob_public))
       = Inr (toy_shared alice_scalar (toy_public_of bob_scalar))"
    by (simp_all add: public_bytes_def private_bytes_def exchange_def backend_call_def
          raw_public_bytes_unfold raw_private_bytes_unfold toy_defs ffi_defs)
  have short: "EVP_PKEY_get_raw_public_key short_backend (public_evp_pkey alice_public)
         X25519_KEY_SIZE = (1, replicate 31 7, 31)"
      "fst (EVP_PKEY_get_raw_private_key short_backend (private_evp_pkey alice) X25519_KEY_SIZE)
         = 0"
    by (simp_all add: short_backend_def)
  show ?thesis
    using fixed_size_32
            [where B = toy_backend and pub = alice_public and priv = alice
               and peer_public_key = "Obj_X25519PublicKey bob_public"]
          fixed_size_32
            [where B = short_backend and pub = alice_public and priv = alice
               and peer_public_key = "Obj_X25519PublicKey bob_public"]
          toy_backend_derive_returns_32_bytes toy short
    by simp
qed

subsection \<open>The exchange returns the derived secret as it is\<close>

text \<open>
  Claim C5. For every private key and every peer that is a public key, \<open>exchange\<close>
  returns exactly what the derive operation returns for the handle of the private key and
  the peer, and that call is the only backend call it makes: no key-derivation function
  or other transformation is applied. With a provider whose derive operation returns 32
  bytes, the value returned is that 32-byte output.
\<close>

theorem exchange_returns_derive_output:
  "exchange B self (Obj_X25519PublicKey peer) =
     (evp_pkey_derive B (private_evp_pkey self) (Obj_X25519PublicKey peer),
      [Call_evp_pkey_derive (private_evp_pkey self) (Obj_X25519PublicKey peer)])
   \<and> (derive_returns_32_bytes B \<longrightarrow>
        (\<forall>out. evp_pkey_derive B (private_evp_pkey self) (Obj_X25519PublicKey peer) = Inr out
           \<longrightarrow> fst (exchange B self (Obj_X25519PublicKey peer)) = Inr out \<and> length out = 32))"
  by (simp add: exchange_def backend_call_def derive_returns_32_bytes_def)

text \<open>The theorem at the toy backend, for the first scalar and the second public key.\<close>

theorem exchange_returns_derive_output_witness:
  "derive_returns_32_bytes toy_backend
   \<and> evp_pkey_derive toy_backend (private_evp_pkey alice) (Obj_X25519PublicKey bob_public)
       = Inr (toy_shared alice_scalar (toy_public_of bob_scalar))
   \<and> exchange toy_backend alice (Obj_X25519PublicKey bob_public) =
       (Inr (toy_shared alice_scalar (toy_public_of bob_scalar)),
        [Call_evp_pkey_derive (Toy_private alice_scalar) (Obj_X25519PublicKey bob_public)])
   \<and> length (toy_shared alice_scalar (toy_public_of bob_scalar)) = 32"
proof -
  have d: "evp_pkey_derive toy_backend (private_evp_pkey alice) (Obj_X25519PublicKey bob_public)
       = Inr (toy_shared alice_scalar (toy_public_of bob_scalar))"
    by (simp add: toy_backend_def alice_def bob_public_def alice_scalar_def bob_scalar_def
          toy_public_of_def)
  have a: "private_evp_pkey alice = Toy_private alice_scalar"
    by (simp add: alice_def)
  show ?thesis
    using exchange_returns_derive_output
            [where B = toy_backend and self = alice and peer = bob_public]
          toy_backend_derive_returns_32_bytes d a
    by simp
qed

subsection \<open>Deriving the public key\<close>

text \<open>
  Claim C6. For every private key, \<open>public_key\<close> succeeds with a public key exactly
  when the provider's round trip on the handle the private key holds (a fresh memory
  BIO, \<open>i2d_PUBKEY_bio\<close> into it, \<open>d2i_PUBKEY_bio\<close> out of it) yields the handle
  of that public key; a successful call has made exactly these three backend calls, and
  the result is the handle read back, wrapped as a new public key. The key object stores
  no public key, and whatever else it stores is not read: two objects that hold the same
  handle get the same result, with the same calls.
\<close>

theorem public_key_rederives:
  "(fst (public_key B self) = Inr pub \<longleftrightarrow>
      derive_public_from_private B (private_evp_pkey self) = Some (public_evp_pkey pub))
   \<and> (fst (public_key B self) = Inr pub \<longrightarrow>
        (\<exists>bio bio'.
           create_mem_bio_gc B = Inr bio
           \<and> i2d_PUBKEY_bio B bio (private_evp_pkey self) = (1, bio')
           \<and> d2i_PUBKEY_bio B bio' = Some (public_evp_pkey pub)
           \<and> snd (public_key B self) =
               [Call_create_mem_bio_gc, Call_i2d_PUBKEY_bio bio (private_evp_pkey self),
                Call_d2i_PUBKEY_bio bio']))
   \<and> (private_evp_pkey other = private_evp_pkey self \<longrightarrow>
        public_key B other = public_key B self)"
proof (intro conjI)
  show "fst (public_key B self) = Inr pub \<longleftrightarrow>
      derive_public_from_private B (private_evp_pkey self) = Some (public_evp_pkey pub)"
    by (cases pub)
       (auto simp: public_key_unfold derive_public_from_private_def
             split: sum.splits prod.splits option.splits if_splits)
  show "fst (public_key B self) = Inr pub \<longrightarrow>
        (\<exists>bio bio'.
           create_mem_bio_gc B = Inr bio
           \<and> i2d_PUBKEY_bio B bio (private_evp_pkey self) = (1, bio')
           \<and> d2i_PUBKEY_bio B bio' = Some (public_evp_pkey pub)
           \<and> snd (public_key B self) =
               [Call_create_mem_bio_gc, Call_i2d_PUBKEY_bio bio (private_evp_pkey self),
                Call_d2i_PUBKEY_bio bio'])"
    by (auto simp: public_key_unfold split: sum.splits prod.splits option.splits if_splits)
  show "private_evp_pkey other = private_evp_pkey self \<longrightarrow>
        public_key B other = public_key B self"
    by (simp add: public_key_def)
qed

text \<open>
  The theorem at the toy backend: the public key of the first scalar, the three calls,
  and the same result for the object that carries another public value as an attribute.
\<close>

theorem public_key_rederives_witness:
  "fst (public_key toy_backend alice) = Inr alice_public
   \<and> derive_public_from_private toy_backend (private_evp_pkey alice)
       = Some (public_evp_pkey alice_public)
   \<and> snd (public_key toy_backend alice) =
       [Call_create_mem_bio_gc, Call_i2d_PUBKEY_bio [] (Toy_private alice_scalar),
        Call_d2i_PUBKEY_bio (toy_public_of alice_scalar)]
   \<and> private_evp_pkey alice_with_attribute = private_evp_pkey alice
   \<and> fst (public_key toy_backend alice_with_attribute) = Inr alice_public"
proof -
  have a: "public_key toy_backend alice =
      (Inr alice_public,
       [Call_create_mem_bio_gc, Call_i2d_PUBKEY_bio [] (Toy_private alice_scalar),
        Call_d2i_PUBKEY_bio (toy_public_of alice_scalar)])"
    by (simp add: public_key_unfold toy_defs)
  have b: "private_evp_pkey alice_with_attribute = private_evp_pkey alice"
    by (simp add: alice_with_attribute_def alice_def)
  show ?thesis
    using public_key_rederives
            [where B = toy_backend and self = alice and pub = alice_public
               and other = alice_with_attribute] a b
    by simp
qed

subsection \<open>Two derivations, two key objects, one raw export\<close>

lemma object_at_append:
  "object_at objs h = Some k \<Longrightarrow> object_at (objs @ rest) h = Some k"
  by (auto simp: object_at_def nth_append split: if_splits)

lemma object_at_fresh: "object_at (objs @ [k]) (length objs) = Some k"
  by (simp add: object_at_def)

text \<open>
  The calls of \<open>public_key\<close>: the call that creates an object, when it is reached, is
  the last one. An export creates no object.
\<close>

lemma public_key_calls:
  "\<exists>bio bio'.
     snd (public_key B self) = [Call_create_mem_bio_gc]
     \<or> snd (public_key B self) =
         [Call_create_mem_bio_gc, Call_i2d_PUBKEY_bio bio (private_evp_pkey self)]
     \<or> snd (public_key B self) =
         [Call_create_mem_bio_gc, Call_i2d_PUBKEY_bio bio (private_evp_pkey self),
          Call_d2i_PUBKEY_bio bio']"
  by (auto simp: public_key_unfold split: sum.splits prod.splits)

lemma public_bytes_creates_no_object:
  "snd (public_bytes_in M objs pub encoding format) = objs"
  by (auto simp: public_bytes_in_def in_store_def public_bytes_def raw_public_bytes_unfold
        raises_def backend_call_def split: prod.splits)

text \<open>
  A derivation that succeeds read the object the private key points to, and left one
  new object in the store, at the address the public key holds.
\<close>

lemma public_key_in_success:
  assumes "public_key_in M objs self = (Inr pub, objs')"
  shows "\<exists>k bio bio' k'.
           object_at objs (private_evp_pkey self) = Some k
           \<and> create_mem_bio_gc M = Inr bio
           \<and> i2d_PUBKEY_bio M bio k = (1, bio')
           \<and> d2i_PUBKEY_bio M bio' = Some k'
           \<and> pub = \<lparr>public_evp_pkey = length objs\<rparr>
           \<and> objs' = objs @ [k']"
  using assms
  by (auto simp: public_key_in_def in_store_def public_key_unfold store_backend_def
           split: sum.splits prod.splits option.splits if_splits)

lemma public_bytes_in_raw:
  "public_bytes_in M objs pub Encoding_Raw PublicFormat_Raw =
     (case object_at objs (public_evp_pkey pub) of
        None \<Rightarrow> (Inl InternalError, objs)
      | Some k \<Rightarrow>
          (case EVP_PKEY_get_raw_public_key M k X25519_KEY_SIZE of
             (res, written, buflen') \<Rightarrow>
               (if res = 1 \<and> buflen' = X25519_KEY_SIZE
                then Inr (ffi_buffer (ffi_store (ffi_new X25519_KEY_SIZE) written) X25519_KEY_SIZE)
                else Inl InternalError,
                objs)))"
  by (auto simp: public_bytes_in_def in_store_def public_bytes_def raw_public_bytes_unfold
        store_backend_def X25519_KEY_SIZE_def split: option.splits prod.splits)

text \<open>
  With the store, a method answers as it does on the objects themselves; what the store
  adds is the address of the object a derivation creates.
\<close>

lemma public_key_in_agrees:
  assumes "object_at objs (private_evp_pkey self) = Some k0"
  shows "public_key_in M objs self =
           (case fst (public_key M \<lparr>private_evp_pkey = k0\<rparr>) of
              Inl e \<Rightarrow> (Inl e, objs)
            | Inr pub \<Rightarrow> (Inr \<lparr>public_evp_pkey = length objs\<rparr>, objs @ [public_evp_pkey pub]))"
  using assms
  by (auto simp: public_key_in_def in_store_def public_key_unfold store_backend_def
           split: sum.splits prod.splits option.splits if_splits)

lemma public_bytes_in_agrees:
  assumes "object_at objs (public_evp_pkey pub) = Some k"
  shows "public_bytes_in M objs pub Encoding_Raw PublicFormat_Raw =
           (fst (public_bytes M \<lparr>public_evp_pkey = k\<rparr> Encoding_Raw PublicFormat_Raw), objs)"
  using assms
  by (auto simp: public_bytes_in_raw public_bytes_def raw_public_bytes_unfold split: prod.splits)

text \<open>
  Claim C7. For every private key \<open>k\<close>: when \<open>public_key\<close> is called on \<open>k\<close> twice
  and both calls succeed, and the two public keys are then exported with
  \<open>public_bytes\<close>, \<open>Raw\<close> encoding and \<open>Raw\<close> format, the two exports are identical,
  byte for byte. The two public keys are two values: they hold different handles, each
  the address of the key object its derivation created. This is for a provider that
  keeps key objects as the specification describes them: a new object for every
  derivation, no object changed by a call, every operation answering from the object
  it is handed.
\<close>

theorem public_key_twice_same_raw_export:
  assumes "public_key_in M objs k = (Inr first_pub, objs1)"
    and "public_key_in M objs1 k = (Inr second_pub, objs2)"
    and "public_bytes_in M objs2 first_pub Encoding_Raw PublicFormat_Raw = (first_raw, objs3)"
    and "public_bytes_in M objs3 second_pub Encoding_Raw PublicFormat_Raw = (second_raw, objs4)"
  shows "public_evp_pkey first_pub \<noteq> public_evp_pkey second_pub \<and> first_raw = second_raw"
proof -
  from public_key_in_success [OF assms(1)] obtain k0 bio bio' k1 where
    k0: "object_at objs (private_evp_pkey k) = Some k0"
    and bio: "create_mem_bio_gc M = Inr bio"
    and i2d: "i2d_PUBKEY_bio M bio k0 = (1, bio')"
    and d2i: "d2i_PUBKEY_bio M bio' = Some k1"
    and p1: "first_pub = \<lparr>public_evp_pkey = length objs\<rparr>"
    and o1: "objs1 = objs @ [k1]"
    by blast
  from public_key_in_success [OF assms(2)] obtain k0' bio2 bio2' k2 where
    k0': "object_at objs1 (private_evp_pkey k) = Some k0'"
    and bio2: "create_mem_bio_gc M = Inr bio2"
    and i2d2: "i2d_PUBKEY_bio M bio2 k0' = (1, bio2')"
    and d2i2: "d2i_PUBKEY_bio M bio2' = Some k2"
    and p2: "second_pub = \<lparr>public_evp_pkey = length objs1\<rparr>"
    and o2: "objs2 = objs1 @ [k2]"
    by blast
  have "k0' = k0"
    using k0 k0' o1 object_at_append [OF k0, of "[k1]"] by simp
  with bio bio2 i2d i2d2 d2i d2i2 have same: "k2 = k1"
    by simp
  have distinct: "public_evp_pkey first_pub \<noteq> public_evp_pkey second_pub"
    by (simp add: p1 p2 o1)
  have at1: "object_at objs2 (public_evp_pkey first_pub) = Some k1"
    using object_at_append [OF object_at_fresh, of objs k1 "[k2]"] by (simp add: p1 o1 o2)
  have at2: "object_at objs2 (public_evp_pkey second_pub) = Some k1"
    using object_at_fresh [of objs1 k2] by (simp add: p2 o2 same)
  from assms(3) at1 have o3: "objs3 = objs2"
    by (auto simp: public_bytes_in_raw split: prod.splits)
  from assms(3) at1 assms(4) at2 have "first_raw = second_raw"
    unfolding o3 by (auto simp: public_bytes_in_raw split: prod.splits)
  with distinct show ?thesis
    by simp
qed

text \<open>
  The theorem at the toy backend, from the store that holds the first scalar: the first
  derivation creates the object at address 1, the second one the object at address 2,
  and the two public keys, which hold 1 and 2, export the same 32 bytes.
\<close>

theorem public_key_twice_same_raw_export_witness:
  "public_key_in toy_backend alice_objects alice_at_0 =
     (Inr \<lparr>public_evp_pkey = 1\<rparr>, [Toy_private alice_scalar, alice_derived])
   \<and> public_key_in toy_backend [Toy_private alice_scalar, alice_derived] alice_at_0 =
     (Inr \<lparr>public_evp_pkey = 2\<rparr>, [Toy_private alice_scalar, alice_derived, alice_derived])
   \<and> public_bytes_in toy_backend [Toy_private alice_scalar, alice_derived, alice_derived]
        \<lparr>public_evp_pkey = 1\<rparr> Encoding_Raw PublicFormat_Raw =
     (Inr (toy_public_of alice_scalar),
      [Toy_private alice_scalar, alice_derived, alice_derived])
   \<and> public_bytes_in toy_backend [Toy_private alice_scalar, alice_derived, alice_derived]
        \<lparr>public_evp_pkey = 2\<rparr> Encoding_Raw PublicFormat_Raw =
     (Inr (toy_public_of alice_scalar),
      [Toy_private alice_scalar, alice_derived, alice_derived])
   \<and> public_evp_pkey \<lparr>public_evp_pkey = 1::nat\<rparr> \<noteq> public_evp_pkey \<lparr>public_evp_pkey = 2::nat\<rparr>
   \<and> fst (public_bytes_in toy_backend [Toy_private alice_scalar, alice_derived, alice_derived]
        \<lparr>public_evp_pkey = 1\<rparr> Encoding_Raw PublicFormat_Raw) =
     fst (public_bytes_in toy_backend [Toy_private alice_scalar, alice_derived, alice_derived]
        \<lparr>public_evp_pkey = 2\<rparr> Encoding_Raw PublicFormat_Raw)"
proof -
  have first: "public_key_in toy_backend alice_objects alice_at_0 =
     (Inr \<lparr>public_evp_pkey = 1\<rparr>, [Toy_private alice_scalar, alice_derived])"
    by (simp add: public_key_in_def in_store_def public_key_unfold store_backend_def
          object_at_def alice_objects_def alice_at_0_def alice_derived_def toy_backend_def
          toy_public_of_def alice_scalar_def)
  have second: "public_key_in toy_backend [Toy_private alice_scalar, alice_derived] alice_at_0 =
     (Inr \<lparr>public_evp_pkey = 2\<rparr>, [Toy_private alice_scalar, alice_derived, alice_derived])"
    by (simp add: public_key_in_def in_store_def public_key_unfold store_backend_def
          object_at_def alice_at_0_def alice_derived_def toy_backend_def toy_public_of_def
          alice_scalar_def)
  have raw1: "public_bytes_in toy_backend
        [Toy_private alice_scalar, alice_derived, alice_derived]
        \<lparr>public_evp_pkey = 1\<rparr> Encoding_Raw PublicFormat_Raw =
     (Inr (toy_public_of alice_scalar),
      [Toy_private alice_scalar, alice_derived, alice_derived])"
    by (simp add: public_bytes_in_raw object_at_def alice_derived_def toy_backend_def
          toy_public_of_def alice_scalar_def ffi_defs)
  have raw2: "public_bytes_in toy_backend
        [Toy_private alice_scalar, alice_derived, alice_derived]
        \<lparr>public_evp_pkey = 2\<rparr> Encoding_Raw PublicFormat_Raw =
     (Inr (toy_public_of alice_scalar),
      [Toy_private alice_scalar, alice_derived, alice_derived])"
    by (simp add: public_bytes_in_raw object_at_def alice_derived_def toy_backend_def
          toy_public_of_def alice_scalar_def ffi_defs)
  show ?thesis
    using public_key_twice_same_raw_export [OF first second raw1 raw2] first second raw1 raw2
    by simp
qed

subsection \<open>Symmetry of the exchange\<close>

text \<open>
  Claim C8. For all key pairs \<open>(a_priv, a_pub)\<close> and \<open>(b_priv, b_pub)\<close>, each private
  key holding a private scalar and each public key derived from it by \<open>public_key\<close>,
  \<open>exchange a_priv b_pub\<close> equals \<open>exchange b_priv a_pub\<close>, for a provider whose
  derive operation commutes as X25519 does. The methods pass their own handle and the
  peer's key to the derive operation and return its result unchanged.
\<close>

theorem exchange_symmetric:
  assumes "derive_commutes B"
    and "holds_private_key B (private_evp_pkey a_priv)"
    and "holds_private_key B (private_evp_pkey b_priv)"
    and "fst (public_key B a_priv) = Inr a_pub"
    and "fst (public_key B b_priv) = Inr b_pub"
  shows "fst (exchange B a_priv (Obj_X25519PublicKey b_pub))
           = fst (exchange B b_priv (Obj_X25519PublicKey a_pub))"
proof -
  have pa: "derive_public_from_private B (private_evp_pkey a_priv) = Some (public_evp_pkey a_pub)"
    using assms(4)
    by (cases a_pub)
       (auto simp: public_key_unfold derive_public_from_private_def
             split: sum.splits prod.splits option.splits if_splits)
  have pb: "derive_public_from_private B (private_evp_pkey b_priv) = Some (public_evp_pkey b_pub)"
    using assms(5)
    by (cases b_pub)
       (auto simp: public_key_unfold derive_public_from_private_def
             split: sum.splits prod.splits option.splits if_splits)
  have "evp_pkey_derive B (private_evp_pkey a_priv)
          (Obj_X25519PublicKey \<lparr>public_evp_pkey = public_evp_pkey b_pub\<rparr>)
      = evp_pkey_derive B (private_evp_pkey b_priv)
          (Obj_X25519PublicKey \<lparr>public_evp_pkey = public_evp_pkey a_pub\<rparr>)"
    using assms(1-3) pa pb unfolding derive_commutes_def by blast
  moreover have "\<lparr>public_evp_pkey = public_evp_pkey a_pub\<rparr> = a_pub"
    by (cases a_pub) simp
  moreover have "\<lparr>public_evp_pkey = public_evp_pkey b_pub\<rparr> = b_pub"
    by (cases b_pub) simp
  ultimately show ?thesis
    by (simp add: exchange_def backend_call_def)
qed

text \<open>The theorem at the toy backend, for the two scalars and their public keys.\<close>

theorem exchange_symmetric_witness:
  "derive_commutes toy_backend
   \<and> holds_private_key toy_backend (private_evp_pkey alice)
   \<and> holds_private_key toy_backend (private_evp_pkey bob)
   \<and> fst (public_key toy_backend alice) = Inr alice_public
   \<and> fst (public_key toy_backend bob) = Inr bob_public
   \<and> fst (exchange toy_backend alice (Obj_X25519PublicKey bob_public))
       = fst (exchange toy_backend bob (Obj_X25519PublicKey alice_public))
   \<and> fst (exchange toy_backend alice (Obj_X25519PublicKey bob_public))
       = Inr (toy_shared alice_scalar (toy_public_of bob_scalar))"
proof -
  have ha: "holds_private_key toy_backend (private_evp_pkey alice)"
    and hb: "holds_private_key toy_backend (private_evp_pkey bob)"
    by (simp_all add: holds_private_key_def toy_backend_def alice_def bob_def)
  have pa: "fst (public_key toy_backend alice) = Inr alice_public"
    and pb: "fst (public_key toy_backend bob) = Inr bob_public"
    by (simp_all add: public_key_unfold toy_defs)
  have v: "fst (exchange toy_backend alice (Obj_X25519PublicKey bob_public))
       = Inr (toy_shared alice_scalar (toy_public_of bob_scalar))"
    by (simp add: exchange_def backend_call_def toy_backend_def alice_def bob_public_def
          alice_scalar_def bob_scalar_def toy_public_of_def)
  show ?thesis
    using exchange_symmetric [OF toy_backend_derive_commutes ha hb pa pb]
      toy_backend_derive_commutes ha hb pa pb v
    by simp
qed

subsection \<open>Raw round trip of a private key\<close>

text \<open>
  Claim C9. For every 32-byte scalar \<open>s\<close> from which a private key can be built,
  building the key from \<open>s\<close> and exporting it with
  \<open>private_bytes Raw Raw NoEncryption\<close> returns exactly \<open>s\<close>, for a provider that
  exports the scalar a handle was built from.
\<close>

theorem raw_private_roundtrip:
  assumes "load_then_export_private B"
    and "length s = 32"
    and "fst (from_private_bytes B s) = Inr k"
  shows "fst (private_bytes B k Encoding_Raw PrivateFormat_Raw NoEncryption) = Inr s"
proof -
  from assms(3) have "x25519_load_private_bytes B s = Inr (private_evp_pkey k)"
    by (cases k) (auto simp: from_private_bytes_def run_defs split: sum.splits)
  with assms(1,2) have
    "EVP_PKEY_get_raw_private_key B (private_evp_pkey k) X25519_KEY_SIZE = (1, s, 32)"
    unfolding load_then_export_private_def by blast
  then show ?thesis
    using assms(2)
    by (simp add: private_bytes_def raw_private_bytes_unfold ffi_export_exact X25519_KEY_SIZE_def)
qed

text \<open>The theorem at the toy backend, for the first scalar.\<close>

theorem raw_private_roundtrip_witness:
  "load_then_export_private toy_backend
   \<and> length alice_scalar = 32
   \<and> fst (from_private_bytes toy_backend alice_scalar) = Inr alice
   \<and> fst (private_bytes toy_backend alice Encoding_Raw PrivateFormat_Raw NoEncryption)
       = Inr alice_scalar"
proof -
  have k: "fst (from_private_bytes toy_backend alice_scalar) = Inr alice"
    by (simp add: from_private_bytes_def run_defs toy_backend_def alice_def length_alice_scalar)
  show ?thesis
    using raw_private_roundtrip [OF toy_backend_load_then_export length_alice_scalar k]
      toy_backend_load_then_export length_alice_scalar k
    by simp
qed

subsection \<open>Structured export of a private key\<close>

text \<open>
  Claim C10. For every private key, every encoding other than \<open>Raw\<close>, every format
  other than \<open>Raw\<close> and every encryption algorithm, \<open>private_bytes\<close> makes exactly
  one backend call, \<open>_private_key_bytes\<close> with the encoding, the format and the
  encryption algorithm as given, and returns what that call returns: the method raises
  nothing of its own and does not inspect the encryption algorithm.
\<close>

theorem private_bytes_structured_delegates:
  assumes "encoding \<noteq> Encoding_Raw" and "format \<noteq> PrivateFormat_Raw"
  shows "private_bytes B self encoding format encryption_algorithm =
           (private_key_bytes B encoding format encryption_algorithm self
              (private_evp_pkey self) None,
            [Call_private_key_bytes encoding format encryption_algorithm self
               (private_evp_pkey self) None])"
  using assms by (simp add: private_bytes_def backend_call_def)

text \<open>
  The theorem at the toy backend: a password with \<open>PEM\<close> and \<open>PKCS8\<close>, and no
  encryption with \<open>DER\<close> and the traditional format, both reach the backend.
\<close>

theorem private_bytes_structured_delegates_witness:
  "Encoding_PEM \<noteq> Encoding_Raw \<and> PKCS8 \<noteq> PrivateFormat_Raw
   \<and> private_bytes toy_backend alice Encoding_PEM PKCS8 (BestAvailableEncryption [1, 2, 3]) =
       (Inr (0x31 # toy_public_of alice_scalar),
        [Call_private_key_bytes Encoding_PEM PKCS8 (BestAvailableEncryption [1, 2, 3]) alice
           (Toy_private alice_scalar) None])
   \<and> private_bytes toy_backend alice Encoding_DER TraditionalOpenSSL NoEncryption =
       (Inr (0x30 # toy_public_of alice_scalar),
        [Call_private_key_bytes Encoding_DER TraditionalOpenSSL NoEncryption alice
           (Toy_private alice_scalar) None])"
  using private_bytes_structured_delegates
          [where encoding = Encoding_PEM and format = PKCS8
             and encryption_algorithm = "BestAvailableEncryption [1, 2, 3]"
             and B = toy_backend and self = alice]
        private_bytes_structured_delegates
          [where encoding = Encoding_DER and format = TraditionalOpenSSL
             and encryption_algorithm = NoEncryption
             and B = toy_backend and self = alice]
  by (simp add: toy_backend_def alice_def)

end
